theory Spec2Isabelle
  imports Complex_Main "HOL-Library.Word"
begin

section \<open>Common types\<close>

text \<open>
  The program is C++. Three kinds of things are made explicit in the model:
  \<^item> what the external libraries (libcamera, mmap, OpenCV, TensorFlow Lite) answer is an
    argument of the model (a record of outcomes, or a function), since their code is not
    part of the repository; a library call is modelled by its return value, as the source
    treats it;
  \<^item> undefined behaviour of C++ (an index outside a vector or an array, a null pointer
    dereference, signed overflow) is a value \<open>Inl fault\<close>: once it occurs nothing is known
    about the rest of the run;
  \<^item> \<open>float\<close> and \<open>double\<close> values are modelled by the real numbers they denote; the
    rounding of a float product is not modelled (copies, the widening of a byte and
    comparisons are exact in both).
\<close>

type_synonym byte = "8 word"

datatype fault =
    NullPointer
  | EmptyBufferMap
  | PlaneIndex nat
  | BufferIndex nat
  | MatRange
  | DimsIndex nat
  | TensorIndex nat
  | ImageIndex nat
  | LabelIndex int
  | SignedOverflow

section \<open>CameraHandler (CameraHandler.h, CameraHandler.cpp)\<close>

subsection \<open>Data\<close>

datatype PixelFormat = NV12 | MJPEG | OtherFormat nat

datatype RequestStatus = RequestPending | RequestComplete | RequestCancelled

datatype ConfigStatus = Valid | Adjusted | Invalid

record Plane =
  fd :: int
  plane_length :: nat

record FrameBuffer =
  planes :: "Plane list"
  cookie :: nat

text \<open>
  A libcamera request: its status and the buffers of \<open>request->buffers()\<close> (the values of
  the stream-to-buffer map, in map order).
\<close>

record Request =
  status :: RequestStatus
  buffers :: "FrameBuffer list"

record StreamConfiguration =
  pixelFormat :: PixelFormat
  size_width :: nat
  size_height :: nat
  stride :: nat
  bufferCount :: nat

record CameraFrame =
  frame_data :: "byte list"
  width :: int
  height :: int

text \<open>
  The members of \<open>CameraHandler\<close>, named as in the source without the trailing
  underscore (which an Isabelle name cannot end with). \<open>frame_callback\<close> is whether the
  \<open>std::function\<close> holds a target; \<open>camera_manager\<close> is whether the manager runs;
  \<open>camera\<close> is the id of the camera (None: null pointer) and \<open>acquired\<close> whether it is
  acquired; \<open>allocator\<close> holds the buffers allocated for the stream; \<open>stream\<close> is the
  configured stream (None: \<open>nullptr\<close>); \<open>connected\<close> is whether \<open>requestCompleted\<close> is
  connected.
\<close>

record CameraHandler =
  frame_callback :: bool
  camera_manager :: bool
  camera :: "string option"
  acquired :: bool
  allocator :: "FrameBuffer list option"
  stream :: "StreamConfiguration option"
  connected :: bool
  requests :: "Request list"

definition CameraHandler_new :: "bool \<Rightarrow> CameraHandler" where
  "CameraHandler_new callback =
     \<lparr>frame_callback = callback, camera_manager = False, camera = None, acquired = False,
      allocator = None, stream = None, connected = False, requests = []\<rparr>"

subsection \<open>CameraHandler::init\<close>

text \<open>
  What libcamera answers during \<open>init\<close>: the return codes, the list of camera ids, the
  configuration generated for the role, what \<open>validate\<close> makes of the configuration (it
  may adjust it in place, the buffer count too), the buffers \<open>allocate\<close> creates, and
  whether the k-th \<open>createRequest\<close> and the \<open>addBuffer\<close> of buffer i succeed.
\<close>

record LibCamera =
  manager_start :: int
  cameras :: "string list"
  get_camera :: "string \<Rightarrow> bool"
  acquire :: int
  generateConfiguration :: StreamConfiguration
  validate :: "StreamConfiguration \<Rightarrow> ConfigStatus \<times> StreamConfiguration"
  configure :: int
  allocate :: "StreamConfiguration \<Rightarrow> int \<times> FrameBuffer list"
  createRequest :: "nat \<Rightarrow> bool"
  addBuffer :: "nat \<Rightarrow> int"

text \<open>
  The loop of lines 92-103. \<open>i\<close> is the loop variable (an \<open>unsigned int\<close>; it stays below
  \<open>bufferCount + 2\<close> and does not wrap for a count below \<open>2 ^ 32 - 1\<close>, so it is a
  \<open>nat\<close> here), \<open>reqs\<close> is \<open>requests\<close>. The index
  expression \<open>buffers(stream)[i++]\<close> increments \<open>i\<close>, and the loop header's \<open>++i\<close>
  increments it again. Result: the value \<open>init\<close> returns from inside the loop (False) or
  True when the loop ends, with \<open>requests\<close>.
\<close>

function create_requests ::
  "LibCamera \<Rightarrow> nat \<Rightarrow> FrameBuffer list \<Rightarrow> nat \<Rightarrow> Request list \<Rightarrow> fault + (bool \<times> Request list)"
where
  "create_requests lc count bufs i reqs =
     (if i < count then
        (if createRequest lc (length reqs) then
           (if i < length bufs then
              (if addBuffer lc i = 0 then
                 create_requests lc count bufs (Suc (Suc i))
                   (reqs @ [\<lparr>status = RequestPending, buffers = [bufs ! i]\<rparr>])
               else Inr (False, reqs))
            else Inl (BufferIndex i))
         else Inr (False, reqs))
      else Inr (True, reqs))"
  by pat_completeness auto
termination
  by (relation "measure (\<lambda>(lc, count, bufs, i, reqs). count - i)") auto

declare create_requests.simps [simp del]

text \<open>
  \<open>init\<close>, with every early return. The result is the returned bool and the handler as the
  call leaves it.
\<close>

fun CameraHandler_init :: "CameraHandler \<Rightarrow> LibCamera \<Rightarrow> nat \<Rightarrow> nat \<Rightarrow> fault + (bool \<times> CameraHandler)" where
  "CameraHandler_init h lc w ht =
     (if manager_start lc \<noteq> 0 then Inr (False, h)
      else
        (case cameras lc of
           [] \<Rightarrow> Inr (False, h\<lparr>camera_manager := False\<rparr>)
         | cam # _ \<Rightarrow>
            (if get_camera lc cam then
               (if acquire lc \<noteq> 0
                then Inr (False, h\<lparr>camera_manager := False, camera := Some cam\<rparr>)
                else
                  (let config = (generateConfiguration lc)
                         \<lparr>pixelFormat := NV12, size_width := w, size_height := ht, bufferCount := 1\<rparr>
                   in
                     (case validate lc config of
                        (Invalid, _) \<Rightarrow>
                          Inr (False, h\<lparr>camera_manager := False, camera := Some cam, acquired := False\<rparr>)
                      | (_, config') \<Rightarrow>
                          (if configure lc \<noteq> 0
                           then Inr (False, h\<lparr>camera_manager := False, camera := Some cam, acquired := False\<rparr>)
                           else
                             (case allocate lc config' of
                                (rc, bufs) \<Rightarrow>
                                  (if rc < 0
                                   then Inr (False, h\<lparr>camera_manager := False, camera := Some cam,
                                          acquired := False, stream := Some config', allocator := Some []\<rparr>)
                                   else
                                     (let h' = h\<lparr>camera_manager := True, camera := Some cam,
                                            acquired := True, stream := Some config',
                                            allocator := Some bufs, connected := True\<rparr>
                                      in
                                        (case create_requests lc (bufferCount config') bufs 0 (requests h') of
                                           Inl f \<Rightarrow> Inl f
                                         | Inr (ok, reqs) \<Rightarrow> Inr (ok, h'\<lparr>requests := reqs\<rparr>)))))))))
             else Inr (False, h\<lparr>camera_manager := False, camera := None\<rparr>))))"

declare CameraHandler_init.simps [simp del]

subsection \<open>requestComplete\<close>

text \<open>
  What the callback does to the outside, in order: the mmap call (length, descriptor, the
  address it returned or None for \<open>MAP_FAILED\<close>), the munmap call (address, length), the
  call of \<open>frame_callback\<close> with the frame, \<open>request->reuse\<close>, \<open>camera->queueRequest\<close>,
  and a line on \<open>std::cerr\<close>. The callback and the library calls are taken to return:
  the source has no \<open>try\<close> block and branches on their results only.
\<close>

datatype Event =
    Mmap nat int "nat option"
  | Munmap nat nat
  | FrameCallback CameraFrame
  | Reuse
  | QueueRequest
  | Cerr string

record Mat =
  cols :: int
  rows :: int
  channels :: int
  mat_data :: "byte list"

text \<open>
  What the system and OpenCV answer inside the callback: \<open>mmap\<close> (length and descriptor
  to the address and the bytes mapped there, None for \<open>MAP_FAILED\<close>), the NV12 conversion
  (rows, columns and stride of the source matrix, and the mapped bytes) and the JPEG
  decoder (length and the mapped bytes).
\<close>

record Sys =
  mmap :: "nat \<Rightarrow> int \<Rightarrow> (nat \<times> byte list) option"
  cvtColor_NV12 :: "int \<Rightarrow> int \<Rightarrow> int \<Rightarrow> byte list \<Rightarrow> Mat"
  imdecode :: "nat \<Rightarrow> byte list \<Rightarrow> Mat"

definition mat_empty :: "Mat \<Rightarrow> bool" where
  "mat_empty m = (mat_data m = [] \<or> rows m * cols m = 0)"

text \<open>Lines 192-198: the frame copied out of the matrix and handed to the callback.\<close>

definition pass_frame :: "CameraHandler \<Rightarrow> Mat \<Rightarrow> fault + Event list" where
  "pass_frame h bgr_image =
     (if frame_callback h then
        (let n = cols bgr_image * rows bgr_image * channels bgr_image in
           if 0 \<le> n \<and> nat n \<le> length (mat_data bgr_image)
           then Inr [FrameCallback \<lparr>frame_data = take (nat n) (mat_data bgr_image),
                       width = cols bgr_image, height = rows bgr_image\<rparr>]
           else Inl MatRange)
      else Inr [])"

text \<open>Lines 204-207, the label \<open>bailout\<close>; \<open>mem\<close> is None for \<open>MAP_FAILED\<close>.\<close>

definition bailout :: "nat option \<Rightarrow> nat \<Rightarrow> Event list" where
  "bailout mem total_buffer_length =
     (case mem of None \<Rightarrow> [] | Some a \<Rightarrow> [Munmap a total_buffer_length]) @ [Reuse, QueueRequest]"

definition requestComplete :: "CameraHandler \<Rightarrow> Sys \<Rightarrow> Request \<Rightarrow> fault + Event list" where
  "requestComplete h sys request =
     (if status request = RequestComplete then
        (case buffers request of
           [] \<Rightarrow> Inl EmptyBufferMap
         | buffer # _ \<Rightarrow>
            (case planes buffer of
               [] \<Rightarrow> Inl (PlaneIndex 0)
             | plane0 # _ \<Rightarrow>
                (case stream h of
                   None \<Rightarrow> Inl NullPointer
                 | Some cfg \<Rightarrow>
                    (let total_buffer_length = sum_list (map plane_length (planes buffer)) in
                       (case mmap sys total_buffer_length (fd plane0) of
                          None \<Rightarrow>
                            Inr ([Mmap total_buffer_length (fd plane0) None, Cerr ''Failed to mmap buffer!'']
                                 @ bailout None total_buffer_length)
                        | Some (mem, bytes) \<Rightarrow>
                            (if pixelFormat cfg = NV12 then
                               (let img_width = int (size_width cfg);
                                    img_height = int (size_height cfg);
                                    bgr_image = cvtColor_NV12 sys (img_height + img_height div 2)
                                                  img_width (int (stride cfg)) bytes
                                in
                                  (case pass_frame h bgr_image of
                                     Inl f \<Rightarrow> Inl f
                                   | Inr evs \<Rightarrow>
                                       Inr ([Mmap total_buffer_length (fd plane0) (Some mem)] @ evs
                                            @ bailout (Some mem) total_buffer_length)))
                             else if pixelFormat cfg = MJPEG then
                               (let bgr_image = imdecode sys total_buffer_length bytes in
                                  if mat_empty bgr_image then
                                    Inr ([Mmap total_buffer_length (fd plane0) (Some mem),
                                          Cerr ''Failed to decode MJPEG frame!'']
                                         @ bailout (Some mem) total_buffer_length)
                                  else
                                    (case pass_frame h bgr_image of
                                       Inl f \<Rightarrow> Inl f
                                     | Inr evs \<Rightarrow>
                                         Inr ([Mmap total_buffer_length (fd plane0) (Some mem)] @ evs
                                              @ bailout (Some mem) total_buffer_length)))
                             else
                               Inr ([Mmap total_buffer_length (fd plane0) (Some mem),
                                     Cerr ''Skipping unsupported frame.'']
                                    @ bailout (Some mem) total_buffer_length)))))))
      else Inr ([Cerr ''Request failed''] @ bailout None 0))"


section \<open>ModelInterpreter (ModelInterpreter.h, ModelInterpreter.cpp)\<close>

subsection \<open>TensorFlow Lite as the program sees it\<close>

datatype TfLiteType =
    kTfLiteNoType | kTfLiteFloat32 | kTfLiteInt32 | kTfLiteUInt8 | kTfLiteInt64
  | kTfLiteString | kTfLiteBool | kTfLiteInt16 | kTfLiteComplex64 | kTfLiteInt8
  | kTfLiteFloat16 | kTfLiteFloat64

datatype TfLiteStatus = kTfLiteOk | kTfLiteError

text \<open>
  A tensor: its element type, its dimension array (\<open>dims->size\<close> is the length of \<open>dims\<close>,
  \<open>dims->data[i]\<close> its i-th element), the quantization parameters the model declares for it
  (\<open>params.scale\<close>, \<open>params.zero_point\<close>) and its buffer, seen as bytes (\<open>data.uint8\<close>) and
  as floats (\<open>data.f\<close>).
\<close>

record TfLiteTensor =
  tensor_type :: TfLiteType
  dims :: "int list"
  params_scale :: real
  params_zero_point :: int
  data_uint8 :: "byte list"
  data_f :: "real list"

text \<open>\<open>input_tensor(0)\<close> and \<open>output_tensor(0)\<close> of the interpreter; None is a null pointer.\<close>

record Interpreter =
  input_tensor :: "TfLiteTensor option"
  output_tensor :: "TfLiteTensor option"

text \<open>
  \<open>typed_input_tensor<T>(0)\<close> and \<open>typed_output_tensor<T>(0)\<close>: the tensor's buffer when
  the tensor exists and its element type is T, a null pointer otherwise.
\<close>

definition typed_tensor_uint8 :: "TfLiteTensor option \<Rightarrow> byte list option" where
  "typed_tensor_uint8 t =
     (case t of None \<Rightarrow> None
      | Some x \<Rightarrow> if tensor_type x = kTfLiteUInt8 then Some (data_uint8 x) else None)"

definition typed_tensor_float :: "TfLiteTensor option \<Rightarrow> real list option" where
  "typed_tensor_float t =
     (case t of None \<Rightarrow> None
      | Some x \<Rightarrow> if tensor_type x = kTfLiteFloat32 then Some (data_f x) else None)"

subsection \<open>Data\<close>

record Detection =
  class_id :: int
  confidence :: real

text \<open>
  The members of \<open>ModelInterpreter\<close>, without the trailing underscore. \<open>model\<close> is whether
  the flat buffer model is loaded, \<open>interpreter\<close> is None while the pointer is null.
\<close>

record ModelInterpreter =
  class_labels :: "string list"
  model :: bool
  interpreter :: "Interpreter option"
  model_input_width :: int
  model_input_height :: int
  model_input_channels :: int
  model_input_type :: TfLiteType
  model_output_type :: TfLiteType
  model_input_scale :: real
  model_input_zero :: int
  model_output_scale :: real
  model_output_zero :: int
  x_scale :: real
  y_scale :: real

text \<open>The constructor: the default member initialisers of the class.\<close>

definition ModelInterpreter_new :: ModelInterpreter where
  "ModelInterpreter_new =
     \<lparr>class_labels = [], model = False, interpreter = None,
      model_input_width = 0, model_input_height = 0, model_input_channels = 0,
      model_input_type = kTfLiteNoType, model_output_type = kTfLiteNoType,
      model_input_scale = 0, model_input_zero = 0, model_output_scale = 0, model_output_zero = 0,
      x_scale = 1, y_scale = 1\<rparr>"

subsection \<open>ModelInterpreter::init\<close>

text \<open>
  What the two files and TensorFlow Lite give to \<open>init\<close>: the lines of the label file
  (None when it cannot be opened), whether the model file loads, the status of the
  builder and of \<open>AllocateTensors\<close>, and the interpreter the builder makes.
\<close>

record ModelFiles =
  labels_txt :: "string list option"
  my_model_tflite :: bool
  builder_status :: TfLiteStatus
  AllocateTensors :: TfLiteStatus
  built :: Interpreter

fun dims_at :: "int list \<Rightarrow> nat \<Rightarrow> fault + int" where
  "dims_at ds i = (if i < length ds then Inr (ds ! i) else Inl (DimsIndex i))"

fun ModelInterpreter_init :: "ModelInterpreter \<Rightarrow> ModelFiles \<Rightarrow> fault + (bool \<times> ModelInterpreter)" where
  "ModelInterpreter_init m files =
     (case labels_txt files of
        None \<Rightarrow> Inr (False, m)
      | Some lines \<Rightarrow>
         (let m1 = m\<lparr>class_labels := lines\<rparr> in
            if my_model_tflite files then
              (let m2 = m1\<lparr>model := True\<rparr> in
                 if builder_status files = kTfLiteOk then
                   (let m3 = m2\<lparr>interpreter := Some (built files)\<rparr> in
                      if AllocateTensors files = kTfLiteOk then
                        (case input_tensor (built files) of
                           None \<Rightarrow> Inl NullPointer
                         | Some inp \<Rightarrow>
                            (if length (dims inp) = 4 then
                               Inr (True, m3\<lparr>model_input_height := dims inp ! 1,
                                              model_input_width := dims inp ! 2,
                                              model_input_channels := dims inp ! 3,
                                              model_input_type := tensor_type inp\<rparr>)
                             else Inr (False, m3)))
                      else Inr (False, m3))
                 else Inr (False, m2))
            else Inr (False, m1)))"

declare ModelInterpreter_init.simps [simp del]

subsection \<open>ModelInterpreter::runInference\<close>

text \<open>The range of \<open>int\<close>; an \<open>int\<close> result outside it is signed overflow.\<close>

definition in_int :: "int \<Rightarrow> bool" where
  "in_int x = (- (2 ^ 31) \<le> x \<and> x < 2 ^ 31)"

definition int_mul :: "int \<Rightarrow> int \<Rightarrow> fault + int" where
  "int_mul a b = (if in_int (a * b) then Inr (a * b) else Inl SignedOverflow)"

text \<open>The expression \<open>model_input_width_ * model_input_height_ * model_input_channels_\<close>.\<close>

definition input_elements :: "ModelInterpreter \<Rightarrow> fault + int" where
  "input_elements m =
     (case int_mul (model_input_width m) (model_input_height m) of
        Inl f \<Rightarrow> Inl f
      | Inr wh \<Rightarrow> int_mul wh (model_input_channels m))"

text \<open>
  \<open>std::memcpy(dst, src, n)\<close> with an \<open>int\<close> count: the count converts to \<open>size_t\<close> (a
  negative one becomes huge); reading past the image or writing past the tensor is a fault.
\<close>

definition memcpy :: "byte list \<Rightarrow> byte list \<Rightarrow> int \<Rightarrow> fault + byte list" where
  "memcpy dst src n =
     (let count = (if n < 0 then nat (2 ^ 64 + n) else nat n) in
        if length src < count then Inl (ImageIndex (length src))
        else if length dst < count then Inl (TensorIndex (length dst))
        else Inr (take count src @ drop count dst))"

text \<open>Lines 105-106: the loop that stores each image byte as a float.\<close>

function float_input_loop :: "byte list \<Rightarrow> real list \<Rightarrow> int \<Rightarrow> int \<Rightarrow> fault + real list" where
  "float_input_loop image_data input_tensor_ptr i n =
     (if i < n then
        (if 0 \<le> i \<and> nat i < length image_data then
           (if nat i < length input_tensor_ptr then
              float_input_loop image_data
                (input_tensor_ptr[nat i := real (unat (image_data ! nat i))]) (i + 1) n
            else Inl (TensorIndex (nat i)))
         else Inl (ImageIndex (nat i)))
      else Inr input_tensor_ptr)"
  by pat_completeness auto
termination
  by (relation "measure (\<lambda>(image_data, input_tensor_ptr, i, n). nat (n - i))") auto

declare float_input_loop.simps [simp del]

text \<open>
  Lines 96-112: the image copied into the input tensor. The result is the interpreter
  with the tensor filled, or None where the source returns for an unsupported input type.
\<close>

definition copy_input :: "ModelInterpreter \<Rightarrow> byte list \<Rightarrow> fault + Interpreter option" where
  "copy_input m image_data =
     (if model_input_type m = kTfLiteUInt8 then
        (case interpreter m of
           None \<Rightarrow> Inl NullPointer
         | Some it \<Rightarrow>
            (case input_elements m of
               Inl f \<Rightarrow> Inl f
             | Inr n \<Rightarrow>
                (case typed_tensor_uint8 (input_tensor it) of
                   None \<Rightarrow> Inl NullPointer
                 | Some input_tensor_ptr \<Rightarrow>
                    (case memcpy input_tensor_ptr image_data n of
                       Inl f \<Rightarrow> Inl f
                     | Inr filled \<Rightarrow>
                         Inr (Some (it\<lparr>input_tensor :=
                                map_option (\<lambda>t. t\<lparr>data_uint8 := filled\<rparr>) (input_tensor it)\<rparr>))))))
      else if model_input_type m = kTfLiteFloat32 then
        (case interpreter m of
           None \<Rightarrow> Inl NullPointer
         | Some it \<Rightarrow>
            (case input_elements m of
               Inl f \<Rightarrow> Inl f
             | Inr n \<Rightarrow>
                (case typed_tensor_float (input_tensor it) of
                   None \<Rightarrow> (if 0 < n then Inl NullPointer else Inr (Some it))
                 | Some input_tensor_ptr \<Rightarrow>
                    (case float_input_loop image_data input_tensor_ptr 0 n of
                       Inl f \<Rightarrow> Inl f
                     | Inr filled \<Rightarrow>
                         Inr (Some (it\<lparr>input_tensor :=
                                map_option (\<lambda>t. t\<lparr>data_f := filled\<rparr>) (input_tensor it)\<rparr>))))))
      else Inr None)"

text \<open>
  Lines 145-149: the loop over the byte output. \<open>scale\<close> and \<open>zero\<close> are the members
  \<open>model_output_scale_\<close> and \<open>model_output_zero_\<close>.
\<close>

function uint8_output_loop ::
  "real \<Rightarrow> int \<Rightarrow> byte list \<Rightarrow> int \<Rightarrow> int \<Rightarrow> Detection list \<Rightarrow> fault + Detection list"
where
  "uint8_output_loop scale zero raw_predictions_data cid num_classes detections =
     (if cid < num_classes then
        (if 0 \<le> cid \<and> nat cid < length raw_predictions_data then
           (let qval = raw_predictions_data ! nat cid;
                d = int (unat qval) - zero
            in
              if in_int d then
                uint8_output_loop scale zero raw_predictions_data (cid + 1) num_classes
                  (detections @ [\<lparr>class_id = cid, confidence = scale * real_of_int d\<rparr>])
              else Inl SignedOverflow)
         else Inl (TensorIndex (nat cid)))
      else Inr detections)"
  by pat_completeness auto
termination
  by (relation "measure (\<lambda>(scale, zero, raw, cid, num_classes, detections). nat (num_classes - cid))")
     auto

declare uint8_output_loop.simps [simp del]

text \<open>Lines 154-157: the loop over the float output.\<close>

function float_output_loop ::
  "real list \<Rightarrow> int \<Rightarrow> int \<Rightarrow> Detection list \<Rightarrow> fault + Detection list"
where
  "float_output_loop raw_predictions_data cid num_classes detections =
     (if cid < num_classes then
        (if 0 \<le> cid \<and> nat cid < length raw_predictions_data then
           float_output_loop raw_predictions_data (cid + 1) num_classes
             (detections @ [\<lparr>class_id = cid, confidence = raw_predictions_data ! nat cid\<rparr>])
         else Inl (TensorIndex (nat cid)))
      else Inr detections)"
  by pat_completeness auto
termination
  by (relation "measure (\<lambda>(raw, cid, num_classes, detections). nat (num_classes - cid))") auto

declare float_output_loop.simps [simp del]

text \<open>
  What a call of \<open>runInference\<close> leaves: the returned vector, the lines written to
  \<open>std::cerr\<close> and the object after the call (the lines on \<open>std::cout\<close> are not kept).
\<close>

record Result =
  detections :: "Detection list"
  cerr :: "string list"
  self :: ModelInterpreter

text \<open>
  Lines 122-160, after a successful \<open>Invoke\<close>. Line 133 reads \<open>dims->data[1]\<close> before
  line 135 looks at \<open>dims->size\<close>.
\<close>

fun read_output :: "ModelInterpreter \<Rightarrow> Interpreter \<Rightarrow> fault + Result" where
  "read_output m it =
     (case output_tensor it of
        None \<Rightarrow> Inr \<lparr>detections = [], cerr = [''Failed to get output tensor.''], self = m\<rparr>
      | Some out \<Rightarrow>
         (let m' = m\<lparr>model_output_type := tensor_type out\<rparr> in
            (case dims_at (dims out) 1 of
               Inl f \<Rightarrow> Inl f
             | Inr num_classes \<Rightarrow>
                (if length (dims out) \<noteq> 2 \<or> dims out ! 0 \<noteq> 1 then
                   Inr \<lparr>detections = [], cerr = [''Unexpected output shape.''], self = m'\<rparr>
                 else if model_output_type m' = kTfLiteUInt8 then
                   (case typed_tensor_uint8 (output_tensor it) of
                      None \<Rightarrow>
                        (if 0 < num_classes then Inl NullPointer
                         else Inr \<lparr>detections = [], cerr = [], self = m'\<rparr>)
                    | Some raw_predictions_data \<Rightarrow>
                        (case uint8_output_loop (model_output_scale m') (model_output_zero m')
                                raw_predictions_data 0 num_classes [] of
                           Inl f \<Rightarrow> Inl f
                         | Inr ds \<Rightarrow> Inr \<lparr>detections = ds, cerr = [], self = m'\<rparr>))
                 else if model_output_type m' = kTfLiteFloat32 then
                   (case typed_tensor_float (output_tensor it) of
                      None \<Rightarrow>
                        (if 0 < num_classes then Inl NullPointer
                         else Inr \<lparr>detections = [], cerr = [], self = m'\<rparr>)
                    | Some raw_predictions_data \<Rightarrow>
                        (case float_output_loop raw_predictions_data 0 num_classes [] of
                           Inl f \<Rightarrow> Inl f
                         | Inr ds \<Rightarrow> Inr \<lparr>detections = ds, cerr = [], self = m'\<rparr>))
                 else Inr \<lparr>detections = [], cerr = [], self = m'\<rparr>))))"

declare read_output.simps [simp del]

text \<open>
  \<open>runInference\<close>. \<open>Invoke\<close> is the model: what \<open>interpreter_->Invoke()\<close> returns and
  the interpreter it leaves, given the interpreter with the input tensor filled.
\<close>

fun runInference ::
  "(Interpreter \<Rightarrow> TfLiteStatus \<times> Interpreter) \<Rightarrow> ModelInterpreter \<Rightarrow> byte list \<Rightarrow> fault + Result"
where
  "runInference Invoke m image_data =
     (case copy_input m image_data of
        Inl f \<Rightarrow> Inl f
      | Inr None \<Rightarrow> Inr \<lparr>detections = [], cerr = [''Unsupported input tensor type''], self = m\<rparr>
      | Inr (Some it1) \<Rightarrow>
         (case Invoke it1 of
            (st, it2) \<Rightarrow>
              (if st \<noteq> kTfLiteOk then
                 Inr \<lparr>detections = [], cerr = [''Failed to invoke TFLite interpreter.''],
                      self = m\<lparr>interpreter := Some it2\<rparr>\<rparr>
               else read_output (m\<lparr>interpreter := Some it2\<rparr>) it2)))"

declare runInference.simps [simp del]

section \<open>The consumer (main.cpp, processFrameAndInfer)\<close>

text \<open>
  Lines 104-113: the loop over the detections. Each pass prints the label of the
  detection's class (an index into \<open>class_labels\<close>) and keeps the index of a confidence
  greater than the running maximum.
\<close>

function best_loop ::
  "string list \<Rightarrow> Detection list \<Rightarrow> nat \<Rightarrow> int \<Rightarrow> real \<Rightarrow> fault + (int \<times> real)"
where
  "best_loop labels ds i argmax max_confidence =
     (if i < length ds then
        (if 0 \<le> class_id (ds ! i) \<and> nat (class_id (ds ! i)) < length labels then
           (if confidence (ds ! i) > max_confidence
            then best_loop labels ds (Suc i) (int i) (confidence (ds ! i))
            else best_loop labels ds (Suc i) argmax max_confidence)
         else Inl (LabelIndex (class_id (ds ! i))))
      else Inr (argmax, max_confidence))"
  by pat_completeness auto
termination
  by (relation "measure (\<lambda>(labels, ds, i, argmax, max_confidence). length ds - i)") auto

declare best_loop.simps [simp del]

text \<open>
  Lines 103-114: the selection and the label printed after \<open>Object detected:\<close>. The
  result is \<open>argmax\<close> and that label.
\<close>

definition object_detected :: "string list \<Rightarrow> Detection list \<Rightarrow> fault + (int \<times> string)" where
  "object_detected labels ds =
     (case best_loop labels ds 0 0 0 of
        Inl f \<Rightarrow> Inl f
      | Inr (argmax, max_confidence) \<Rightarrow>
          if 0 \<le> argmax \<and> nat argmax < length labels then Inr (argmax, labels ! nat argmax)
          else Inl (LabelIndex argmax))"


section \<open>Notions used to state the properties\<close>

text \<open>
  An OpenCV matrix owns \<open>rows * cols * channels\<close> bytes: the copy of lines 194-196 stays
  inside its data.
\<close>

definition mat_ok :: "Mat \<Rightarrow> bool" where
  "mat_ok m = (0 \<le> cols m * rows m * channels m
               \<and> nat (cols m * rows m * channels m) \<le> length (mat_data m))"

text \<open>The length the callback maps: the sum of the lengths of the buffer's planes.\<close>

definition total_length :: "FrameBuffer \<Rightarrow> nat" where
  "total_length buffer = sum_list (map plane_length (planes buffer))"

text \<open>The number of mmap calls in a trace, successful or not.\<close>

fun map_attempts :: "Event list \<Rightarrow> nat" where
  "map_attempts [] = 0"
| "map_attempts (Mmap len d res # es) = Suc (map_attempts es)"
| "map_attempts (e # es) = map_attempts es"

text \<open>The successful mappings of a trace, and its unmappings, as (address, length).\<close>

fun mapped :: "Event list \<Rightarrow> (nat \<times> nat) list" where
  "mapped [] = []"
| "mapped (Mmap len d (Some a) # es) = (a, len) # mapped es"
| "mapped (e # es) = mapped es"

fun unmapped :: "Event list \<Rightarrow> (nat \<times> nat) list" where
  "unmapped [] = []"
| "unmapped (Munmap a len # es) = (a, len) # unmapped es"
| "unmapped (e # es) = unmapped es"

text \<open>
  A trace pairs its mappings: \<open>live\<close> is the mapping that is open. A successful mmap
  needs no open mapping and opens one; a munmap needs the open mapping, with its address
  and length, and closes it; at the end nothing is open.
\<close>

fun paired :: "(nat \<times> nat) option \<Rightarrow> Event list \<Rightarrow> bool" where
  "paired live [] = (live = None)"
| "paired live (Mmap len d (Some a) # es) = (live = None \<and> paired (Some (a, len)) es)"
| "paired live (Munmap a len # es) = (live = Some (a, len) \<and> paired None es)"
| "paired live (e # es) = paired live es"

text \<open>The frames a trace hands to the callback.\<close>

fun frames :: "Event list \<Rightarrow> CameraFrame list" where
  "frames [] = []"
| "frames (FrameCallback f # es) = f # frames es"
| "frames (e # es) = frames es"

section \<open>Concrete inputs\<close>

text \<open>
  A camera stack where every call succeeds and \<open>validate\<close> raises the buffer count from
  the requested 1 to 4 (as the comment at line 62 expects); buffer i carries cookie i.
\<close>

definition lc4 :: LibCamera where
  "lc4 = \<lparr>manager_start = 0, cameras = [''cam0''], get_camera = (\<lambda>_. True), acquire = 0,
          generateConfiguration =
            \<lparr>pixelFormat = MJPEG, size_width = 0, size_height = 0, stride = 0, bufferCount = 0\<rparr>,
          validate = (\<lambda>c. (Adjusted, c\<lparr>stride := size_width c, bufferCount := 4\<rparr>)),
          configure = 0,
          allocate = (\<lambda>c. (int (bufferCount c),
                       map (\<lambda>i. \<lparr>planes = [\<lparr>fd = 7, plane_length = 10\<rparr>], cookie = i\<rparr>)
                         [0..<bufferCount c])),
          createRequest = (\<lambda>_. True), addBuffer = (\<lambda>_. 0)\<rparr>"

text \<open>
  A system where mmap succeeds at address 4096 (for a length above 0), the NV12
  conversion gives a 2 by 2 image of 3 channels and the JPEG decoder an empty matrix.
\<close>

definition sys0 :: Sys where
  "sys0 = \<lparr>mmap = (\<lambda>len d. if len = 0 then None else Some (4096, replicate len 0)),
           cvtColor_NV12 = (\<lambda>r c s b. \<lparr>cols = 2, rows = 2, channels = 3, mat_data = replicate 12 1\<rparr>),
           imdecode = (\<lambda>n b. \<lparr>cols = 0, rows = 0, channels = 3, mat_data = []\<rparr>)\<rparr>"

definition handler0 :: "PixelFormat \<Rightarrow> CameraHandler" where
  "handler0 pf = (CameraHandler_new True)
     \<lparr>stream := Some \<lparr>pixelFormat = pf, size_width = 2, size_height = 2, stride = 2,
                      bufferCount = 4\<rparr>\<rparr>"

definition request0 :: "RequestStatus \<Rightarrow> Request" where
  "request0 st = \<lparr>status = st,
      buffers = [\<lparr>planes = [\<lparr>fd = 5, plane_length = 4\<rparr>, \<lparr>fd = 5, plane_length = 2\<rparr>],
                  cookie = 0\<rparr>]\<rparr>"

text \<open>
  Models: an input tensor of shape [1, 1, 1, 3], of bytes or of floats, and four output
  tensors. \<open>output_A\<close> is the byte output of shape [1, 4] that declares scale 0.5 and
  zero-point 50.
\<close>

definition input_u8 :: TfLiteTensor where
  "input_u8 = \<lparr>tensor_type = kTfLiteUInt8, dims = [1, 1, 1, 3], params_scale = 1 / 255,
               params_zero_point = 0, data_uint8 = [0, 0, 0], data_f = []\<rparr>"

definition input_f32 :: TfLiteTensor where
  "input_f32 = \<lparr>tensor_type = kTfLiteFloat32, dims = [1, 1, 1, 3], params_scale = 0,
                params_zero_point = 0, data_uint8 = [], data_f = [0, 0, 0]\<rparr>"

definition output_A :: TfLiteTensor where
  "output_A = \<lparr>tensor_type = kTfLiteUInt8, dims = [1, 4], params_scale = 1 / 2,
               params_zero_point = 50, data_uint8 = [0, 0, 0, 0], data_f = []\<rparr>"

definition output_f32 :: TfLiteTensor where
  "output_f32 = \<lparr>tensor_type = kTfLiteFloat32, dims = [1, 3], params_scale = 0,
                 params_zero_point = 0, data_uint8 = [], data_f = [0, 0, 0]\<rparr>"

definition output_i8 :: TfLiteTensor where
  "output_i8 = \<lparr>tensor_type = kTfLiteInt8, dims = [1, 4], params_scale = 1 / 2,
                params_zero_point = 0, data_uint8 = [0, 0, 0, 0], data_f = []\<rparr>"

definition output_rank1 :: TfLiteTensor where
  "output_rank1 = \<lparr>tensor_type = kTfLiteFloat32, dims = [4], params_scale = 0,
                   params_zero_point = 0, data_uint8 = [], data_f = [0, 0, 0, 0]\<rparr>"

definition output_rank3 :: TfLiteTensor where
  "output_rank3 = \<lparr>tensor_type = kTfLiteFloat32, dims = [1, 3, 2], params_scale = 0,
                   params_zero_point = 0, data_uint8 = [], data_f = [0, 0, 0, 0, 0, 0]\<rparr>"

definition files_with :: "TfLiteTensor \<Rightarrow> TfLiteTensor \<Rightarrow> ModelFiles" where
  "files_with inp out =
     \<lparr>labels_txt = Some [''a'', ''b'', ''c'', ''d''], my_model_tflite = True,
      builder_status = kTfLiteOk, AllocateTensors = kTfLiteOk,
      built = \<lparr>input_tensor = Some inp, output_tensor = Some out\<rparr>\<rparr>"

text \<open>The object after the constructor and a successful \<open>init\<close> on such a model.\<close>

definition loaded :: "TfLiteTensor \<Rightarrow> TfLiteTensor \<Rightarrow> ModelInterpreter" where
  "loaded inp out =
     (case ModelInterpreter_init ModelInterpreter_new (files_with inp out) of
        Inr (ok, m) \<Rightarrow> m
      | Inl f \<Rightarrow> ModelInterpreter_new)"

text \<open>A model run that succeeds and writes the given bytes and floats to the output tensor.\<close>

definition Invoke_writes :: "byte list \<Rightarrow> real list \<Rightarrow> Interpreter \<Rightarrow> TfLiteStatus \<times> Interpreter" where
  "Invoke_writes bs fs it =
     (kTfLiteOk,
      it\<lparr>output_tensor := map_option (\<lambda>t. t\<lparr>data_uint8 := bs, data_f := fs\<rparr>) (output_tensor it)\<rparr>)"


section \<open>CameraHandler::init: requests and buffers\<close>

text \<open>
  When every libcamera call succeeds and the allocator holds at least \<open>count\<close> buffers,
  the loop of lines 92-103 ends with True, and it adds one request for every second
  index from \<open>i\<close> on: \<open>(count - i + 1) div 2\<close> requests.
\<close>

lemma create_requests_count:
  assumes "\<And>k. createRequest lc k" and "\<And>i. addBuffer lc i = 0" and "count \<le> length bufs"
  shows "\<exists>rs. create_requests lc count bufs i reqs = Inr (True, rs)
           \<and> length rs = length reqs + (count - i + 1) div 2"
  using assms
proof (induction lc count bufs i reqs rule: create_requests.induct)
  case (1 lc count bufs i reqs)
  show ?case
  proof (cases "i < count")
    case False
    then show ?thesis by (subst create_requests.simps) simp
  next
    case True
    with "1.prems" have b: "i < length bufs" by simp
    from "1.IH"[OF True "1.prems"(1) b "1.prems"(2)] "1.prems" obtain rs where
      rs: "create_requests lc count bufs (Suc (Suc i))
             (reqs @ [\<lparr>status = RequestPending, buffers = [bufs ! i]\<rparr>]) = Inr (True, rs)"
          "length rs = length (reqs @ [\<lparr>status = RequestPending, buffers = [bufs ! i]\<rparr>])
                        + (count - Suc (Suc i) + 1) div 2"
      by blast
    have "create_requests lc count bufs i reqs = Inr (True, rs)"
      using True b "1.prems"(1,2) rs(1) by (subst create_requests.simps) simp
    moreover have "length rs = length reqs + (count - i + 1) div 2"
      using rs(2) True by simp arith
    ultimately show ?thesis by blast
  qed
qed

text \<open>
  C2. The claim: after a successful \<open>init\<close> there is one request per allocated buffer,
  and as many requests as the negotiated buffer count. The code at a negotiated count of
  4, every call succeeding: \<open>init\<close> returns true with 4 buffers allocated and 2 requests,
  bound to the buffers 0 and 2; the buffers 1 and 3 are bound to no request.
\<close>

theorem init_four_buffers_two_requests:
  "CameraHandler_init (CameraHandler_new True) lc4 640 480 =
     Inr (True,
       \<lparr>frame_callback = True, camera_manager = True, camera = Some ''cam0'', acquired = True,
        allocator = Some (map (\<lambda>i. \<lparr>planes = [\<lparr>fd = 7, plane_length = 10\<rparr>], cookie = i\<rparr>)
                            [0, 1, 2, 3]),
        stream = Some \<lparr>pixelFormat = NV12, size_width = 640, size_height = 480, stride = 640,
                       bufferCount = 4\<rparr>,
        connected = True,
        requests = map (\<lambda>i. \<lparr>status = RequestPending,
                               buffers = [\<lparr>planes = [\<lparr>fd = 7, plane_length = 10\<rparr>], cookie = i\<rparr>]\<rparr>)
                     [0, 2]\<rparr>)"
  by (simp add: CameraHandler_init.simps lc4_def CameraHandler_new_def create_requests.simps upt_rec)

section \<open>CameraHandler::requestComplete: the traces\<close>

lemma pass_frame_cases:
  "mat_ok m \<Longrightarrow> pass_frame h m = Inr [] \<or> (\<exists>f. pass_frame h m = Inr [FrameCallback f])"
  by (simp add: pass_frame_def mat_ok_def Let_def)

lemma after_map:
  assumes "mat_ok m"
  shows "\<exists>tail. (case pass_frame h m of Inl x \<Rightarrow> Inl x | Inr evs \<Rightarrow> Inr ([M] @ evs @ B))
             = Inr (M # tail @ B)
           \<and> (tail = [] \<or> (\<exists>f. tail = [FrameCallback f]) \<or> (\<exists>s. tail = [Cerr s]))"
proof -
  from pass_frame_cases[OF assms, of h] consider
    "pass_frame h m = Inr []" | f where "pass_frame h m = Inr [FrameCallback f]" by blast
  then show ?thesis
  proof cases
    case 1
    then show ?thesis by (intro exI[of _ "[]"]) simp
  next
    case 2
    then show ?thesis by (intro exI[of _ "[FrameCallback f]"]) simp
  qed
qed

text \<open>An unsuccessful completion: one line on the error stream, then reuse and requeue.\<close>

lemma requestComplete_not_complete:
  "status r \<noteq> RequestComplete \<Longrightarrow>
     requestComplete h sys r = Inr [Cerr ''Request failed'', Reuse, QueueRequest]"
  by (simp add: requestComplete_def bailout_def)

text \<open>A failed mapping: no unmap, then reuse and requeue.\<close>

lemma requestComplete_mmap_failed:
  assumes "status r = RequestComplete" "buffers r = buffer # bs" "planes buffer = plane0 # ps"
    and "stream h = Some cfg" and "mmap sys (total_length buffer) (fd plane0) = None"
  shows "requestComplete h sys r =
           Inr [Mmap (total_length buffer) (fd plane0) None, Cerr ''Failed to mmap buffer!'',
                Reuse, QueueRequest]"
  using assms by (simp add: requestComplete_def total_length_def Let_def bailout_def)

text \<open>
  A successful mapping: at most one more event (the frame handed over, or the line that
  reports a decode failure or an unsupported format), then the label \<open>bailout\<close>.
\<close>

lemma requestComplete_mapped:
  assumes c: "status r = RequestComplete" and b: "buffers r = buffer # bs"
    and p: "planes buffer = plane0 # ps" and s: "stream h = Some cfg"
    and m: "mmap sys (total_length buffer) (fd plane0) = Some (mem, bytes)"
    and cvt: "\<And>a b c d. mat_ok (cvtColor_NV12 sys a b c d)"
    and dec: "\<And>n b. mat_ok (imdecode sys n b)"
  shows "\<exists>tail. requestComplete h sys r =
            Inr (Mmap (total_length buffer) (fd plane0) (Some mem) # tail
                 @ bailout (Some mem) (total_length buffer))
          \<and> (tail = [] \<or> (\<exists>f. tail = [FrameCallback f]) \<or> (\<exists>s. tail = [Cerr s]))"
proof (cases "pixelFormat cfg = NV12")
  case True
  from after_map[OF cvt] show ?thesis
    using c b p s m True
    by (simp add: requestComplete_def total_length_def Let_def)
next
  case nnv: False
  show ?thesis
  proof (cases "pixelFormat cfg = MJPEG")
    case mj: True
    show ?thesis
    proof (cases "mat_empty (imdecode sys (total_length buffer) bytes)")
      case True
      then show ?thesis
        using c b p s m nnv mj
        by (intro exI[of _ "[Cerr ''Failed to decode MJPEG frame!'']"])
           (simp add: requestComplete_def total_length_def Let_def)
    next
      case False
      from after_map[OF dec] show ?thesis
        using c b p s m nnv mj False
        by (simp add: requestComplete_def total_length_def Let_def)
    qed
  next
    case False
    then show ?thesis
      using c b p s m nnv
      by (intro exI[of _ "[Cerr ''Skipping unsupported frame.'']"])
         (simp add: requestComplete_def total_length_def Let_def)
  qed
qed


text \<open>
  C3. Every invocation of the completion callback reuses and requeues the request exactly
  once, as its last two actions: whether the status is an error, the mapping fails, the
  decoding fails, the format is unsupported or the frame is handed over. The hypotheses
  say that the invocation is defined: a completed request holds a buffer with a plane and
  the stream is configured, and the matrices OpenCV returns own their data.
\<close>

theorem requestComplete_requeues_exactly_once:
  assumes wf: "status r = RequestComplete \<Longrightarrow>
                 buffers r \<noteq> [] \<and> planes (hd (buffers r)) \<noteq> [] \<and> stream h \<noteq> None"
    and cvt: "\<And>a b c d. mat_ok (cvtColor_NV12 sys a b c d)"
    and dec: "\<And>n b. mat_ok (imdecode sys n b)"
  shows "\<exists>pre. requestComplete h sys r = Inr (pre @ [Reuse, QueueRequest])
           \<and> Reuse \<notin> set pre \<and> QueueRequest \<notin> set pre"
proof (cases "status r = RequestComplete")
  case False
  from requestComplete_not_complete[OF False] show ?thesis
    by (intro exI[of _ "[Cerr ''Request failed'']"]) simp
next
  case True
  with wf obtain buffer bs plane0 ps cfg where
    b: "buffers r = buffer # bs" and p: "planes buffer = plane0 # ps" and s: "stream h = Some cfg"
    by (cases "buffers r"; cases "planes (hd (buffers r))"; cases "stream h") auto
  show ?thesis
  proof (cases "mmap sys (total_length buffer) (fd plane0)")
    case None
    from requestComplete_mmap_failed[OF True b p s None] show ?thesis
      by (intro exI[of _ "[Mmap (total_length buffer) (fd plane0) None,
                           Cerr ''Failed to mmap buffer!'']"]) simp
  next
    case (Some mb)
    obtain mem bytes where "mb = (mem, bytes)" by (cases mb)
    with Some have m: "mmap sys (total_length buffer) (fd plane0) = Some (mem, bytes)" by simp
    from requestComplete_mapped[OF True b p s m cvt dec] obtain tail where
      t: "requestComplete h sys r =
            Inr (Mmap (total_length buffer) (fd plane0) (Some mem) # tail
                 @ [Munmap mem (total_length buffer), Reuse, QueueRequest])"
      and tl: "tail = [] \<or> (\<exists>f. tail = [FrameCallback f]) \<or> (\<exists>s. tail = [Cerr s])"
      by (auto simp: bailout_def)
    from t tl show ?thesis
      by (intro exI[of _ "Mmap (total_length buffer) (fd plane0) (Some mem) # tail
                           @ [Munmap mem (total_length buffer)]"]) auto
  qed
qed

text \<open>The witness: a completed NV12 request whose frame reaches the callback.\<close>

theorem requestComplete_requeues_exactly_once_witness:
  "requestComplete (handler0 NV12) sys0 (request0 RequestComplete) =
     Inr ([Mmap 6 5 (Some 4096),
           FrameCallback \<lparr>frame_data = replicate 12 1, width = 2, height = 2\<rparr>,
           Munmap 4096 6] @ [Reuse, QueueRequest])
   \<and> (\<exists>pre. requestComplete (handler0 NV12) sys0 (request0 RequestComplete)
               = Inr (pre @ [Reuse, QueueRequest])
          \<and> Reuse \<notin> set pre \<and> QueueRequest \<notin> set pre)"
proof -
  have wf: "status (request0 RequestComplete) = RequestComplete \<Longrightarrow>
        buffers (request0 RequestComplete) \<noteq> []
        \<and> planes (hd (buffers (request0 RequestComplete))) \<noteq> []
        \<and> stream (handler0 NV12) \<noteq> None"
    by (simp add: request0_def handler0_def)
  have cvt: "\<And>a b c d. mat_ok (cvtColor_NV12 sys0 a b c d)"
    by (simp add: sys0_def mat_ok_def)
  have dec: "\<And>n b. mat_ok (imdecode sys0 n b)"
    by (simp add: sys0_def mat_ok_def)
  have run: "requestComplete (handler0 NV12) sys0 (request0 RequestComplete) =
     Inr ([Mmap 6 5 (Some 4096),
           FrameCallback \<lparr>frame_data = replicate 12 1, width = 2, height = 2\<rparr>,
           Munmap 4096 6] @ [Reuse, QueueRequest])"
    by (simp add: requestComplete_def request0_def handler0_def sys0_def CameraHandler_new_def
          pass_frame_def bailout_def Let_def)
  from requestComplete_requeues_exactly_once[OF wf cvt dec] run show ?thesis by blast
qed

text \<open>
  C4. In every invocation of the callback the trace pairs its mappings: a successful
  mapping is followed by exactly one unmap of the same address and length before the
  callback returns, on every path, and there is no unmap when the mapping failed or was
  not attempted. The successful mappings are: the one of the buffer when the request
  completed and mmap succeeded, none otherwise. Hypotheses as for C3.
\<close>

theorem requestComplete_map_unmap_paired:
  assumes wf: "status r = RequestComplete \<Longrightarrow>
                 buffers r \<noteq> [] \<and> planes (hd (buffers r)) \<noteq> [] \<and> stream h \<noteq> None"
    and cvt: "\<And>a b c d. mat_ok (cvtColor_NV12 sys a b c d)"
    and dec: "\<And>n b. mat_ok (imdecode sys n b)"
  shows "\<exists>evs. requestComplete h sys r = Inr evs \<and> paired None evs \<and> unmapped evs = mapped evs
           \<and> mapped evs =
               (if status r = RequestComplete then
                  (case mmap sys (total_length (hd (buffers r))) (fd (hd (planes (hd (buffers r))))) of
                     None \<Rightarrow> []
                   | Some (mem, bytes) \<Rightarrow> [(mem, total_length (hd (buffers r)))])
                else [])"
proof (cases "status r = RequestComplete")
  case False
  from requestComplete_not_complete[OF False] False show ?thesis by simp
next
  case True
  with wf obtain buffer bs plane0 ps cfg where
    b: "buffers r = buffer # bs" and p: "planes buffer = plane0 # ps" and s: "stream h = Some cfg"
    by (cases "buffers r"; cases "planes (hd (buffers r))"; cases "stream h") auto
  show ?thesis
  proof (cases "mmap sys (total_length buffer) (fd plane0)")
    case None
    from requestComplete_mmap_failed[OF True b p s None] True b p None show ?thesis by simp
  next
    case (Some mb)
    obtain mem bytes where "mb = (mem, bytes)" by (cases mb)
    with Some have m: "mmap sys (total_length buffer) (fd plane0) = Some (mem, bytes)" by simp
    from requestComplete_mapped[OF True b p s m cvt dec] obtain tail where
      t: "requestComplete h sys r =
            Inr (Mmap (total_length buffer) (fd plane0) (Some mem) # tail
                 @ [Munmap mem (total_length buffer), Reuse, QueueRequest])"
      and tl: "tail = [] \<or> (\<exists>f. tail = [FrameCallback f]) \<or> (\<exists>s. tail = [Cerr s])"
      by (auto simp: bailout_def)
    from tl t True b p m show ?thesis by auto
  qed
qed

text \<open>The witness: a completed MJPEG request whose decoding fails.\<close>

theorem requestComplete_map_unmap_paired_witness:
  "requestComplete (handler0 MJPEG) sys0 (request0 RequestComplete) =
     Inr [Mmap 6 5 (Some 4096), Cerr ''Failed to decode MJPEG frame!'', Munmap 4096 6,
          Reuse, QueueRequest]
   \<and> (\<exists>evs. requestComplete (handler0 MJPEG) sys0 (request0 RequestComplete) = Inr evs
          \<and> paired None evs \<and> unmapped evs = mapped evs \<and> mapped evs = [(4096, 6)])"
proof -
  have wf: "status (request0 RequestComplete) = RequestComplete \<Longrightarrow>
        buffers (request0 RequestComplete) \<noteq> []
        \<and> planes (hd (buffers (request0 RequestComplete))) \<noteq> []
        \<and> stream (handler0 MJPEG) \<noteq> None"
    by (simp add: request0_def handler0_def)
  have cvt: "\<And>a b c d. mat_ok (cvtColor_NV12 sys0 a b c d)"
    by (simp add: sys0_def mat_ok_def)
  have dec: "\<And>n b. mat_ok (imdecode sys0 n b)"
    by (simp add: sys0_def mat_ok_def)
  have run: "requestComplete (handler0 MJPEG) sys0 (request0 RequestComplete) =
     Inr [Mmap 6 5 (Some 4096), Cerr ''Failed to decode MJPEG frame!'', Munmap 4096 6,
          Reuse, QueueRequest]"
    by (simp add: requestComplete_def request0_def handler0_def sys0_def CameraHandler_new_def
          pass_frame_def bailout_def Let_def mat_empty_def)
  from requestComplete_map_unmap_paired[OF wf cvt dec] run show ?thesis by simp
qed

text \<open>
  C6. For a completion whose status is not successful the callback returns (no fault),
  never calls mmap, hands no frame to the next stage, and reuses and requeues the request:
  its whole trace is one line on the error stream, the reuse and the requeue.
\<close>

theorem requestComplete_unsuccessful_status:
  assumes "status r \<noteq> RequestComplete"
  shows "\<exists>evs. requestComplete h sys r = Inr evs \<and> map_attempts evs = 0 \<and> frames evs = []
           \<and> evs = [Cerr ''Request failed'', Reuse, QueueRequest]"
  using requestComplete_not_complete[OF assms] by simp

text \<open>The witness: a cancelled request.\<close>

theorem requestComplete_unsuccessful_status_witness:
  "status (request0 RequestCancelled) \<noteq> RequestComplete
   \<and> requestComplete (handler0 NV12) sys0 (request0 RequestCancelled)
       = Inr [Cerr ''Request failed'', Reuse, QueueRequest]"
proof -
  have st: "status (request0 RequestCancelled) \<noteq> RequestComplete" by (simp add: request0_def)
  from requestComplete_unsuccessful_status[OF st, of "handler0 NV12" sys0] st show ?thesis by simp
qed

section \<open>The loops of runInference and of the consumer\<close>

text \<open>
  The float input loop, from any index: it returns, keeps the length of the tensor, and
  element j of the result is the value of image byte j for the indices it passes.
\<close>

lemma float_input_loop_nth:
  "0 \<le> i \<Longrightarrow> nat n \<le> length img \<Longrightarrow> nat n \<le> length t \<Longrightarrow>
     \<exists>r. float_input_loop img t i n = Inr r \<and> length r = length t
       \<and> (\<forall>j<length t. r ! j = (if nat i \<le> j \<and> int j < n then real (unat (img ! j)) else t ! j))"
proof (induction img t i n rule: float_input_loop.induct)
  case (1 img t i n)
  show ?case
  proof (cases "i < n")
    case False
    with "1.prems" show ?thesis by (subst float_input_loop.simps) auto
  next
    case True
    with "1.prems" have a: "0 \<le> i \<and> nat i < length img" and b: "nat i < length t" by auto
    from "1.IH"[OF True a b] "1.prems" obtain r where
      r: "float_input_loop img (t[nat i := real (unat (img ! nat i))]) (i + 1) n = Inr r"
         "length r = length t"
         "\<forall>j<length t. r ! j = (if nat (i + 1) \<le> j \<and> int j < n then real (unat (img ! j))
                                  else (t[nat i := real (unat (img ! nat i))]) ! j)"
      by auto
    have "float_input_loop img t i n = Inr r"
      using True a b r(1) by (subst float_input_loop.simps) simp
    moreover have "\<forall>j<length t. r ! j = (if nat i \<le> j \<and> int j < n then real (unat (img ! j)) else t ! j)"
    proof (intro allI impI)
      fix j assume j: "j < length t"
      show "r ! j = (if nat i \<le> j \<and> int j < n then real (unat (img ! j)) else t ! j)"
      proof (cases "j = nat i")
        case True
        with r(3) j a \<open>i < n\<close> show ?thesis by (auto simp: nat_add_distrib)
      next
        case False
        with r(3) j a show ?thesis by (auto simp: nat_add_distrib)
      qed
    qed
    ultimately show ?thesis using r(2) by blast
  qed
qed

text \<open>From index 0: the first n elements are the image bytes, widened; the rest is kept.\<close>

lemma float_input_loop_spec:
  assumes "nat n \<le> length img" "nat n \<le> length t"
  shows "float_input_loop img t 0 n =
           Inr (map (\<lambda>b. real (unat b)) (take (nat n) img) @ drop (nat n) t)"
proof -
  from float_input_loop_nth[of 0 n img t] assms obtain r where
    r: "float_input_loop img t 0 n = Inr r" "length r = length t"
       "\<forall>j<length t. r ! j = (if int j < n then real (unat (img ! j)) else t ! j)"
    by auto
  have "r = map (\<lambda>b. real (unat b)) (take (nat n) img) @ drop (nat n) t"
  proof (rule nth_equalityI)
    show "length r = length (map (\<lambda>b. real (unat b)) (take (nat n) img) @ drop (nat n) t)"
      using r(2) assms by simp
  next
    fix j assume "j < length r"
    with r(2) have j: "j < length t" by simp
    show "r ! j = (map (\<lambda>b. real (unat b)) (take (nat n) img) @ drop (nat n) t) ! j"
    proof (cases "int j < n")
      case True
      then have "j < nat n" by simp
      with r(3) j True assms show ?thesis by (simp add: nth_append)
    next
      case False
      then have "\<not> j < nat n" by simp
      with r(3) j False assms show ?thesis by (simp add: nth_append min_def)
    qed
  qed
  with r(1) show ?thesis by simp
qed

text \<open>The two output loops: one detection per class index, in ascending order.\<close>

lemma float_output_loop_spec:
  "0 \<le> c \<Longrightarrow> nat n \<le> length raw \<Longrightarrow>
     float_output_loop raw c n acc =
       Inr (acc @ map (\<lambda>k. \<lparr>class_id = int k, confidence = raw ! k\<rparr>) [nat c..<nat n])"
proof (induction raw c n acc rule: float_output_loop.induct)
  case (1 raw c n acc)
  show ?case
  proof (cases "c < n")
    case False
    then show ?thesis by (subst float_output_loop.simps) simp
  next
    case True
    with "1.prems" have a: "0 \<le> c \<and> nat c < length raw" by auto
    have up: "[nat c..<nat n] = nat c # [nat (c + 1)..<nat n]"
      using True "1.prems" by (simp add: upt_conv_Cons nat_add_distrib)
    from "1.IH"[OF True a] "1.prems" have
      "float_output_loop raw (c + 1) n (acc @ [\<lparr>class_id = c, confidence = raw ! nat c\<rparr>]) =
         Inr ((acc @ [\<lparr>class_id = c, confidence = raw ! nat c\<rparr>])
              @ map (\<lambda>k. \<lparr>class_id = int k, confidence = raw ! k\<rparr>) [nat (c + 1)..<nat n])"
      by simp
    then show ?thesis
      using True a up "1.prems" by (subst float_output_loop.simps) simp
  qed
qed

lemma uint8_output_loop_spec:
  "0 \<le> c \<Longrightarrow> nat n \<le> length raw \<Longrightarrow> in_int (- zero) \<Longrightarrow> in_int (255 - zero) \<Longrightarrow>
     uint8_output_loop scale zero raw c n acc =
       Inr (acc @ map (\<lambda>k. \<lparr>class_id = int k,
                            confidence = scale * real_of_int (int (unat (raw ! k)) - zero)\<rparr>)
                   [nat c..<nat n])"
proof (induction scale zero raw c n acc rule: uint8_output_loop.induct)
  case (1 scale zero raw c n acc)
  show ?case
  proof (cases "c < n")
    case False
    then show ?thesis by (subst uint8_output_loop.simps) simp
  next
    case True
    with "1.prems" have a: "0 \<le> c \<and> nat c < length raw" by auto
    define x where "x = int (unat (raw ! nat c))"
    have "0 \<le> x" "x < 256"
      unfolding x_def using uint_bounded[of "raw ! nat c"] by simp_all
    with "1.prems"(3,4) have "in_int (x - zero)"
      unfolding in_int_def by linarith
    then have d: "in_int (int (unat (raw ! nat c)) - zero)"
      unfolding x_def .
    have up: "[nat c..<nat n] = nat c # [nat (c + 1)..<nat n]"
      using True "1.prems" by (simp add: upt_conv_Cons nat_add_distrib)
    from "1.IH"[OF True a refl refl d] "1.prems" have
      "uint8_output_loop scale zero raw (c + 1) n
          (acc @ [\<lparr>class_id = c, confidence = scale * real_of_int (int (unat (raw ! nat c)) - zero)\<rparr>]) =
         Inr ((acc @ [\<lparr>class_id = c, confidence = scale * real_of_int (int (unat (raw ! nat c)) - zero)\<rparr>])
              @ map (\<lambda>k. \<lparr>class_id = int k,
                            confidence = scale * real_of_int (int (unat (raw ! k)) - zero)\<rparr>)
                   [nat (c + 1)..<nat n])"
      by simp
    then show ?thesis
      using True a up d "1.prems" by (subst uint8_output_loop.simps) (simp add: Let_def)
  qed
qed

text \<open>
  The selection loop started at argmax 0 and maximum 0: when no confidence is above 0 the
  comparison of line 109 never holds, and both stay 0.
\<close>

lemma best_loop_none_positive:
  assumes "\<forall>d\<in>set ds. \<not> 0 < confidence d"
    and "\<forall>d\<in>set ds. 0 \<le> class_id d \<and> nat (class_id d) < length labels"
  shows "best_loop labels ds i 0 0 = Inr (0, 0)"
using assms
proof (induction "length ds - i" arbitrary: i)
  case 0
  then show ?case by (subst best_loop.simps) simp
next
  case (Suc k)
  then have i: "i < length ds" by simp
  then have mem: "ds ! i \<in> set ds" by simp
  from Suc.hyps(1)[of "Suc i"] Suc.hyps(2) Suc.prems
  have "best_loop labels ds (Suc i) 0 0 = Inr (0, 0)" by simp
  with i mem Suc.prems show ?case by (subst best_loop.simps) auto
qed

text \<open>
  C10. The selection starts from index 0 and maximum 0 and compares with \<open>>\<close>: for
  every detection list with no confidence above 0 (and class ids that index the labels,
  which are not empty) it reports index 0 and the label at 0, whichever confidence is the
  largest.
\<close>

theorem object_detected_defaults_to_first:
  assumes "\<forall>d\<in>set ds. \<not> 0 < confidence d"
    and "\<forall>d\<in>set ds. 0 \<le> class_id d \<and> nat (class_id d) < length labels"
    and "labels \<noteq> []"
  shows "object_detected labels ds = Inr (0, labels ! 0)"
  using best_loop_none_positive[OF assms(1,2)] assms(3) by (simp add: object_detected_def)


section \<open>runInference: input marshalling\<close>

lemma input_elements_ok:
  assumes "in_int (model_input_width m * model_input_height m)"
    and "in_int (model_input_width m * model_input_height m * model_input_channels m)"
  shows "input_elements m =
           Inr (model_input_width m * model_input_height m * model_input_channels m)"
  using assms by (simp add: input_elements_def int_mul_def)

lemma memcpy_ok:
  "0 \<le> n \<Longrightarrow> nat n \<le> length src \<Longrightarrow> nat n \<le> length dst \<Longrightarrow>
     memcpy dst src n = Inr (take (nat n) src @ drop (nat n) dst)"
  by (simp add: memcpy_def Let_def)

lemma input_elements_ignores_quantization:
  "input_elements (m\<lparr>model_input_scale := s, model_input_zero := z\<rparr>) = input_elements m"
  by (simp add: input_elements_def cong: sum.case_cong)

lemma copy_input_ignores_quantization:
  "copy_input (m\<lparr>model_input_scale := s, model_input_zero := z\<rparr>) img = copy_input m img"
  by (simp add: copy_input_def input_elements_ignores_quantization cong: option.case_cong if_cong)

text \<open>
  C7. Input marshalling. \<open>n\<close> is width * height * channels (no signed overflow, not
  negative), the image has at least \<open>n\<close> bytes and the input tensor is the one \<open>init\<close>
  read the type of. For a byte input type the first \<open>n\<close> bytes of the tensor become the
  first \<open>n\<close> image bytes, verbatim; for a float input type element i becomes the value of
  image byte i; the rest of the tensor is kept. Neither path uses the input scale or
  zero-point: the result is the same for all values of the two members. This is the
  interpreter that \<open>Invoke\<close> receives in \<open>runInference\<close>.
\<close>

theorem copy_input_marshals:
  assumes it: "interpreter m = Some it" and t: "input_tensor it = Some t"
    and ty: "tensor_type t = model_input_type m"
    and n: "n = model_input_width m * model_input_height m * model_input_channels m"
    and wh: "in_int (model_input_width m * model_input_height m)" and whc: "in_int n"
    and pos: "0 \<le> n" and img: "nat n \<le> length image_data"
  shows "(model_input_type m = kTfLiteUInt8 \<longrightarrow> nat n \<le> length (data_uint8 t) \<longrightarrow>
            copy_input m image_data =
              Inr (Some (it\<lparr>input_tensor := Some (t\<lparr>data_uint8 :=
                     take (nat n) image_data @ drop (nat n) (data_uint8 t)\<rparr>)\<rparr>)))
       \<and> (model_input_type m = kTfLiteFloat32 \<longrightarrow> nat n \<le> length (data_f t) \<longrightarrow>
            copy_input m image_data =
              Inr (Some (it\<lparr>input_tensor := Some (t\<lparr>data_f :=
                     map (\<lambda>b. real (unat b)) (take (nat n) image_data) @ drop (nat n) (data_f t)\<rparr>)\<rparr>)))
       \<and> (\<forall>s z. copy_input (m\<lparr>model_input_scale := s, model_input_zero := z\<rparr>) image_data
                  = copy_input m image_data)
       \<and> (\<forall>Invoke it1. copy_input m image_data = Inr (Some it1) \<longrightarrow>
            runInference Invoke m image_data =
              (if fst (Invoke it1) \<noteq> kTfLiteOk then
                 Inr \<lparr>detections = [], cerr = [''Failed to invoke TFLite interpreter.''],
                      self = m\<lparr>interpreter := Some (snd (Invoke it1))\<rparr>\<rparr>
               else read_output (m\<lparr>interpreter := Some (snd (Invoke it1))\<rparr>) (snd (Invoke it1))))"
proof (intro conjI impI allI)
  assume u8: "model_input_type m = kTfLiteUInt8" and len: "nat n \<le> length (data_uint8 t)"
  from input_elements_ok[OF wh whc[unfolded n]] have ie: "input_elements m = Inr n" by (simp add: n)
  from u8 it t ty ie memcpy_ok[OF pos img len]
  show "copy_input m image_data =
          Inr (Some (it\<lparr>input_tensor := Some (t\<lparr>data_uint8 :=
                 take (nat n) image_data @ drop (nat n) (data_uint8 t)\<rparr>)\<rparr>))"
    by (simp add: copy_input_def typed_tensor_uint8_def)
next
  assume f32: "model_input_type m = kTfLiteFloat32" and len: "nat n \<le> length (data_f t)"
  from input_elements_ok[OF wh whc[unfolded n]] have ie: "input_elements m = Inr n" by (simp add: n)
  from f32 it t ty ie float_input_loop_spec[OF img len]
  show "copy_input m image_data =
          Inr (Some (it\<lparr>input_tensor := Some (t\<lparr>data_f :=
                 map (\<lambda>b. real (unat b)) (take (nat n) image_data) @ drop (nat n) (data_f t)\<rparr>)\<rparr>))"
    by (simp add: copy_input_def typed_tensor_float_def)
next
  fix s z
  show "copy_input (m\<lparr>model_input_scale := s, model_input_zero := z\<rparr>) image_data
          = copy_input m image_data"
    by (rule copy_input_ignores_quantization)
next
  fix Invoke it1
  assume "copy_input m image_data = Inr (Some it1)"
  then show "runInference Invoke m image_data =
      (if fst (Invoke it1) \<noteq> kTfLiteOk then
         Inr \<lparr>detections = [], cerr = [''Failed to invoke TFLite interpreter.''],
              self = m\<lparr>interpreter := Some (snd (Invoke it1))\<rparr>\<rparr>
       else read_output (m\<lparr>interpreter := Some (snd (Invoke it1))\<rparr>) (snd (Invoke it1)))"
    by (simp add: runInference.simps split: prod.splits)
qed

section \<open>runInference: the output\<close>

lemma runInference_after_invoke:
  assumes "copy_input m image_data = Inr (Some it1)" and "Invoke it1 = (kTfLiteOk, it2)"
  shows "runInference Invoke m image_data = read_output (m\<lparr>interpreter := Some it2\<rparr>) it2"
  using assms by (simp add: runInference.simps)

lemma read_output_valid_shape:
  assumes "output_tensor it = Some out" and "dims out = [1, n]"
  shows "read_output m it =
     (let m' = m\<lparr>model_output_type := tensor_type out\<rparr> in
        if tensor_type out = kTfLiteUInt8 then
          (case uint8_output_loop (model_output_scale m) (model_output_zero m) (data_uint8 out) 0 n [] of
             Inl f \<Rightarrow> Inl f
           | Inr ds \<Rightarrow> Inr \<lparr>detections = ds, cerr = [], self = m'\<rparr>)
        else if tensor_type out = kTfLiteFloat32 then
          (case float_output_loop (data_f out) 0 n [] of
             Inl f \<Rightarrow> Inl f
           | Inr ds \<Rightarrow> Inr \<lparr>detections = ds, cerr = [], self = m'\<rparr>)
        else Inr \<lparr>detections = [], cerr = [], self = m'\<rparr>)"
  using assms
  by (simp add: read_output.simps Let_def typed_tensor_uint8_def typed_tensor_float_def)

text \<open>
  C8. For an output tensor of shape [1, n], of bytes or of floats, whose buffer holds at
  least \<open>n\<close> elements (and, for bytes, a zero-point member for which the subtraction of
  line 147 does not overflow), \<open>runInference\<close> returns exactly \<open>n\<close> detections with the
  class ids 0, 1, ..., n - 1 in this order; for floats, the confidence of detection k is
  the float at index k. (A negative \<open>n\<close> gives no detection.)
\<close>

theorem runInference_one_detection_per_class:
  assumes ci: "copy_input m image_data = Inr (Some it1)" and inv: "Invoke it1 = (kTfLiteOk, it2)"
    and out: "output_tensor it2 = Some out" and shape: "dims out = [1, n]"
    and ty: "tensor_type out = kTfLiteUInt8 \<or> tensor_type out = kTfLiteFloat32"
    and u8: "tensor_type out = kTfLiteUInt8 \<Longrightarrow>
               nat n \<le> length (data_uint8 out) \<and> in_int (- model_output_zero m)
               \<and> in_int (255 - model_output_zero m)"
    and f32: "tensor_type out = kTfLiteFloat32 \<Longrightarrow> nat n \<le> length (data_f out)"
  shows "\<exists>r. runInference Invoke m image_data = Inr r
           \<and> length (detections r) = nat n
           \<and> map class_id (detections r) = map int [0..<nat n]
           \<and> (tensor_type out = kTfLiteFloat32 \<longrightarrow>
                (\<forall>k<nat n. confidence (detections r ! k) = data_f out ! k))"
proof (cases "tensor_type out = kTfLiteUInt8")
  case True
  with u8 have "uint8_output_loop (model_output_scale m) (model_output_zero m) (data_uint8 out) 0 n [] =
      Inr (map (\<lambda>k. \<lparr>class_id = int k, confidence = model_output_scale m
                  * real_of_int (int (unat (data_uint8 out ! k)) - model_output_zero m)\<rparr>) [0..<nat n])"
    using uint8_output_loop_spec[of 0 n "data_uint8 out" "model_output_zero m" "model_output_scale m" "[]"]
    by simp
  with True show ?thesis
    unfolding runInference_after_invoke[where Invoke = Invoke, OF ci inv]
    by (simp add: read_output_valid_shape[OF out shape] Let_def comp_def)
next
  case False
  with ty have fl: "tensor_type out = kTfLiteFloat32" by simp
  with f32 have "float_output_loop (data_f out) 0 n [] =
      Inr (map (\<lambda>k. \<lparr>class_id = int k, confidence = data_f out ! k\<rparr>) [0..<nat n])"
    using float_output_loop_spec[of 0 n "data_f out" "[]"] by simp
  with fl show ?thesis
    unfolding runInference_after_invoke[where Invoke = Invoke, OF ci inv]
    by (simp add: read_output_valid_shape[OF out shape] Let_def comp_def)
qed

text \<open>
  C9. When the output tensor passes the shape check and its element type is neither
  \<open>kTfLiteUInt8\<close> nor \<open>kTfLiteFloat32\<close>, \<open>runInference\<close> returns the empty list and
  writes nothing to the error stream.
\<close>

theorem runInference_other_output_type_silent:
  assumes ci: "copy_input m image_data = Inr (Some it1)" and inv: "Invoke it1 = (kTfLiteOk, it2)"
    and out: "output_tensor it2 = Some out" and shape: "dims out = [1, n]"
    and ty: "tensor_type out \<noteq> kTfLiteUInt8" "tensor_type out \<noteq> kTfLiteFloat32"
  shows "\<exists>r. runInference Invoke m image_data = Inr r \<and> detections r = [] \<and> cerr r = []"
  using ty unfolding runInference_after_invoke[where Invoke = Invoke, OF ci inv]
  by (simp add: read_output_valid_shape[OF out shape] Let_def)


section \<open>Runs on the concrete models\<close>

lemma loaded_u8:
  "loaded input_u8 out =
     ModelInterpreter_new\<lparr>class_labels := [''a'', ''b'', ''c'', ''d''], model := True,
        interpreter := Some \<lparr>input_tensor = Some input_u8, output_tensor = Some out\<rparr>,
        model_input_height := 1, model_input_width := 1, model_input_channels := 3,
        model_input_type := kTfLiteUInt8\<rparr>"
  by (simp add: loaded_def ModelInterpreter_init.simps files_with_def input_u8_def Let_def)

lemma loaded_f32:
  "loaded input_f32 out =
     ModelInterpreter_new\<lparr>class_labels := [''a'', ''b'', ''c'', ''d''], model := True,
        interpreter := Some \<lparr>input_tensor = Some input_f32, output_tensor = Some out\<rparr>,
        model_input_height := 1, model_input_width := 1, model_input_channels := 3,
        model_input_type := kTfLiteFloat32\<rparr>"
  by (simp add: loaded_def ModelInterpreter_init.simps files_with_def input_f32_def Let_def)

lemma copy_input_loaded_u8:
  "copy_input (loaded input_u8 out) [1, 2, 3] =
     Inr (Some \<lparr>input_tensor = Some (input_u8\<lparr>data_uint8 := [1, 2, 3]\<rparr>), output_tensor = Some out\<rparr>)"
  unfolding loaded_u8
  by (simp add: ModelInterpreter_new_def copy_input_def input_elements_def int_mul_def
        in_int_def typed_tensor_uint8_def memcpy_def input_u8_def)

text \<open>The witness of C7: a byte input and a float input of 3 elements, an image of 4 bytes.\<close>

theorem copy_input_marshals_witness:
  "copy_input (loaded input_u8 output_A) [1, 2, 3, 9] =
     Inr (Some \<lparr>input_tensor = Some (input_u8\<lparr>data_uint8 := [1, 2, 3]\<rparr>),
                output_tensor = Some output_A\<rparr>)
   \<and> copy_input (loaded input_f32 output_A) [1, 2, 3, 9] =
     Inr (Some \<lparr>input_tensor = Some (input_f32\<lparr>data_f := [1, 2, 3]\<rparr>),
                output_tensor = Some output_A\<rparr>)"
proof -
  have a: "copy_input (loaded input_u8 output_A) [1, 2, 3, 9] =
     Inr (Some \<lparr>input_tensor = Some (input_u8\<lparr>data_uint8 := [1, 2, 3]\<rparr>),
                output_tensor = Some output_A\<rparr>)"
    using copy_input_marshals[of "loaded input_u8 output_A"
        "\<lparr>input_tensor = Some input_u8, output_tensor = Some output_A\<rparr>" input_u8 3 "[1, 2, 3, 9]"]
    unfolding loaded_u8
    by (simp add: ModelInterpreter_new_def in_int_def input_u8_def)
  have b: "copy_input (loaded input_f32 output_A) [1, 2, 3, 9] =
     Inr (Some \<lparr>input_tensor = Some (input_f32\<lparr>data_f := [1, 2, 3]\<rparr>),
                output_tensor = Some output_A\<rparr>)"
    using copy_input_marshals[of "loaded input_f32 output_A"
        "\<lparr>input_tensor = Some input_f32, output_tensor = Some output_A\<rparr>" input_f32 3 "[1, 2, 3, 9]"]
    unfolding loaded_f32
    by (simp add: ModelInterpreter_new_def in_int_def input_f32_def)
  from a b show ?thesis by simp
qed

text \<open>The witness of C8: a float output of shape [1, 3].\<close>

theorem runInference_one_detection_per_class_witness:
  "\<exists>r. runInference (Invoke_writes [] [1 / 10, 7 / 10, 1 / 5]) (loaded input_u8 output_f32) [1, 2, 3] = Inr r
      \<and> length (detections r) = 3
      \<and> map class_id (detections r) = [0, 1, 2]
      \<and> confidence (detections r ! 0) = 1 / 10
      \<and> confidence (detections r ! 1) = 7 / 10
      \<and> confidence (detections r ! 2) = 1 / 5"
proof -
  let ?out = "output_f32\<lparr>data_uint8 := [], data_f := [1 / 10, 7 / 10, 1 / 5]\<rparr>"
  let ?it1 = "\<lparr>input_tensor = Some (input_u8\<lparr>data_uint8 := [1, 2, 3]\<rparr>),
               output_tensor = Some output_f32\<rparr>"
  let ?it2 = "\<lparr>input_tensor = Some (input_u8\<lparr>data_uint8 := [1, 2, 3]\<rparr>),
               output_tensor = Some ?out\<rparr>"
  have inv: "Invoke_writes [] [1 / 10, 7 / 10, 1 / 5] ?it1 = (kTfLiteOk, ?it2)"
    by (simp add: Invoke_writes_def)
  have out: "output_tensor ?it2 = Some ?out" by simp
  have shape: "dims ?out = [1, 3]" by (simp add: output_f32_def)
  have ty: "tensor_type ?out = kTfLiteUInt8 \<or> tensor_type ?out = kTfLiteFloat32"
    by (simp add: output_f32_def)
  have u8: "tensor_type ?out = kTfLiteUInt8 \<Longrightarrow>
      nat 3 \<le> length (data_uint8 ?out) \<and> in_int (- model_output_zero (loaded input_u8 output_f32))
      \<and> in_int (255 - model_output_zero (loaded input_u8 output_f32))"
    by (simp add: output_f32_def)
  have f32: "tensor_type ?out = kTfLiteFloat32 \<Longrightarrow> nat 3 \<le> length (data_f ?out)"
    by simp
  from runInference_one_detection_per_class[where Invoke = "Invoke_writes [] [1 / 10, 7 / 10, 1 / 5]",
      OF copy_input_loaded_u8 inv out shape ty u8 f32]
  obtain r where r: "runInference (Invoke_writes [] [1 / 10, 7 / 10, 1 / 5])
                       (loaded input_u8 output_f32) [1, 2, 3] = Inr r"
      "length (detections r) = nat 3" "map class_id (detections r) = map int [0..<nat 3]"
      "tensor_type ?out = kTfLiteFloat32 \<longrightarrow> (\<forall>k<nat 3. confidence (detections r ! k) = data_f ?out ! k)"
    by blast
  from r(4) have c: "\<And>k. k < 3 \<Longrightarrow> confidence (detections r ! k) = [1 / 10, 7 / 10, 1 / 5] ! k"
    by (simp add: output_f32_def)
  have "confidence (detections r ! 0) = 1 / 10" "confidence (detections r ! 1) = 7 / 10"
    "confidence (detections r ! 2) = 1 / 5"
    using c[of 0] c[of 1] c[of 2] by simp_all
  with r(1,2,3) show ?thesis by (simp add: upt_rec)
qed

text \<open>The witness of C9: an output of type \<open>kTfLiteInt8\<close> and shape [1, 4].\<close>

theorem runInference_other_output_type_silent_witness:
  "\<exists>r. runInference (Invoke_writes [10, 200, 0, 0] []) (loaded input_u8 output_i8) [1, 2, 3] = Inr r
      \<and> detections r = [] \<and> cerr r = []"
proof -
  let ?out = "output_i8\<lparr>data_uint8 := [10, 200, 0, 0], data_f := []\<rparr>"
  let ?it1 = "\<lparr>input_tensor = Some (input_u8\<lparr>data_uint8 := [1, 2, 3]\<rparr>),
               output_tensor = Some output_i8\<rparr>"
  let ?it2 = "\<lparr>input_tensor = Some (input_u8\<lparr>data_uint8 := [1, 2, 3]\<rparr>),
               output_tensor = Some ?out\<rparr>"
  have inv: "Invoke_writes [10, 200, 0, 0] [] ?it1 = (kTfLiteOk, ?it2)"
    by (simp add: Invoke_writes_def)
  have out: "output_tensor ?it2 = Some ?out" by simp
  have shape: "dims ?out = [1, 4]" by (simp add: output_i8_def)
  have ty: "tensor_type ?out \<noteq> kTfLiteUInt8" "tensor_type ?out \<noteq> kTfLiteFloat32"
    by (simp_all add: output_i8_def)
  from runInference_other_output_type_silent[where Invoke = "Invoke_writes [10, 200, 0, 0] []",
      OF copy_input_loaded_u8 inv out shape ty]
  show ?thesis .
qed

text \<open>
  The witness of C10: the confidences - 5, - 1, - 3; the largest is at index 1 and the
  label reported is the one at index 0.
\<close>

theorem object_detected_defaults_to_first_witness:
  "object_detected [''a'', ''b'', ''c'']
     [\<lparr>class_id = 0, confidence = - 5\<rparr>, \<lparr>class_id = 1, confidence = - 1\<rparr>,
      \<lparr>class_id = 2, confidence = - 3\<rparr>] = Inr (0, ''a'')"
  using object_detected_defaults_to_first[of
     "[\<lparr>class_id = 0, confidence = - 5\<rparr>, \<lparr>class_id = 1, confidence = - 1\<rparr>,
       \<lparr>class_id = 2, confidence = - 3\<rparr>]" "[''a'', ''b'', ''c'']"]
  by simp

text \<open>With a confidence above 0 the selection is the argmax: scenario A's confidences give class 1.\<close>

lemma object_detected_scenario_A:
  "object_detected [''a'', ''b'', ''c'', ''d'']
     [\<lparr>class_id = 0, confidence = - 20\<rparr>, \<lparr>class_id = 1, confidence = 75\<rparr>,
      \<lparr>class_id = 2, confidence = - 25\<rparr>, \<lparr>class_id = 3, confidence = - 25\<rparr>] = Inr (1, ''b'')"
  by (simp add: object_detected_def best_loop.simps)

section \<open>The quantization members\<close>

text \<open>
  Neither \<open>init\<close> nor \<open>runInference\<close> assigns \<open>model_output_scale_\<close> or
  \<open>model_output_zero_\<close> (nor the input pair): they keep the constructor's 0 whatever the
  model declares.
\<close>

lemma ModelInterpreter_init_keeps_quantization:
  "ModelInterpreter_init m files = Inr (ok, m') \<Longrightarrow>
     model_output_scale m' = model_output_scale m \<and> model_output_zero m' = model_output_zero m
     \<and> model_input_scale m' = model_input_scale m \<and> model_input_zero m' = model_input_zero m"
  by (auto simp: ModelInterpreter_init.simps Let_def split: option.splits if_splits)

lemma read_output_keeps_quantization:
  "read_output m it = Inr r \<Longrightarrow>
     model_output_scale (self r) = model_output_scale m \<and> model_output_zero (self r) = model_output_zero m"
  by (auto simp: read_output.simps Let_def split: option.splits if_splits sum.splits)

lemma runInference_keeps_quantization:
  "runInference Invoke m img = Inr r \<Longrightarrow>
     model_output_scale (self r) = model_output_scale m \<and> model_output_zero (self r) = model_output_zero m"
  by (auto simp: runInference.simps split: option.splits if_splits sum.splits prod.splits
        dest!: read_output_keeps_quantization)

text \<open>
  C1. The claim: for a byte output the confidence of a class is the scale the model
  declares times (raw byte - the zero-point the model declares); raw [10, 200, 0, 0] with
  scale 0.5 and zero-point 50 give [-20, 75, -25, -25]. The code on that model, after the
  constructor and a successful \<open>init\<close>: the four detections have confidence 0, since the
  members used at line 147 are still 0.
\<close>

theorem runInference_scenario_A_all_zero:
  "\<exists>m r. ModelInterpreter_init ModelInterpreter_new (files_with input_u8 output_A) = Inr (True, m)
      \<and> runInference (Invoke_writes [10, 200, 0, 0] []) m [1, 2, 3] = Inr r
      \<and> map class_id (detections r) = [0, 1, 2, 3]
      \<and> map confidence (detections r) = [0, 0, 0, 0]"
  by (simp add: ModelInterpreter_init.simps ModelInterpreter_new_def files_with_def input_u8_def
        output_A_def runInference.simps copy_input_def input_elements_def int_mul_def in_int_def
        typed_tensor_uint8_def memcpy_def Invoke_writes_def read_output.simps
        uint8_output_loop.simps Let_def)

text \<open>
  Line 147 itself computes the formula of the claim from the two members: were they set
  to the declared 0.5 and 50, the run would give the confidences of scenario A.
\<close>

lemma runInference_scenario_A_declared_parameters:
  "\<exists>r. runInference (Invoke_writes [10, 200, 0, 0] [])
          ((loaded input_u8 output_A)\<lparr>model_output_scale := 1 / 2, model_output_zero := 50\<rparr>)
          [1, 2, 3] = Inr r
      \<and> map class_id (detections r) = [0, 1, 2, 3]
      \<and> map confidence (detections r) = [- 20, 75, - 25, - 25]"
  by (simp add: loaded_def ModelInterpreter_init.simps ModelInterpreter_new_def files_with_def
        input_u8_def output_A_def runInference.simps copy_input_def input_elements_def int_mul_def
        in_int_def typed_tensor_uint8_def memcpy_def Invoke_writes_def read_output.simps
        uint8_output_loop.simps Let_def)

section \<open>The shape check\<close>

text \<open>
  An output of rank 2 or more that is not of shape [1, n] gives the empty list and the
  line \<open>Unexpected output shape.\<close>; an output of rank 0 or 1 is read past the end of its
  dimension array at line 133, before the check.
\<close>

lemma read_output_bad_shape:
  "output_tensor it = Some out \<Longrightarrow> 2 \<le> length (dims out) \<Longrightarrow>
   length (dims out) \<noteq> 2 \<or> dims out ! 0 \<noteq> 1 \<Longrightarrow>
     read_output m it = Inr \<lparr>detections = [], cerr = [''Unexpected output shape.''],
                             self = m\<lparr>model_output_type := tensor_type out\<rparr>\<rparr>"
  by (auto simp: read_output.simps Let_def)

lemma read_output_rank_below_2:
  "output_tensor it = Some out \<Longrightarrow> length (dims out) < 2 \<Longrightarrow> read_output m it = Inl (DimsIndex 1)"
  by (simp add: read_output.simps Let_def)

lemma runInference_scenario_C:
  "\<exists>r. runInference (Invoke_writes [] [1, 2, 3, 4, 5, 6]) (loaded input_u8 output_rank3) [1, 2, 3] = Inr r
      \<and> detections r = [] \<and> cerr r = [''Unexpected output shape.'']"
  by (simp add: loaded_def ModelInterpreter_init.simps ModelInterpreter_new_def files_with_def
        input_u8_def output_rank3_def runInference.simps copy_input_def input_elements_def
        int_mul_def in_int_def typed_tensor_uint8_def memcpy_def Invoke_writes_def
        read_output.simps Let_def)

text \<open>
  C5. The claim: for every output shape that is not [1, n] the result is the empty list
  and no position outside the dimension array is read. The code on a model whose output
  has rank 1, shape [4]: the run reads \<open>dims->data[1]\<close>, one position past the array of
  length 1.
\<close>

theorem runInference_rank1_reads_past_dims:
  "\<exists>m. ModelInterpreter_init ModelInterpreter_new (files_with input_u8 output_rank1) = Inr (True, m)
      \<and> runInference (Invoke_writes [] [1, 2, 3, 4]) m [1, 2, 3] = Inl (DimsIndex 1)"
  by (simp add: ModelInterpreter_init.simps ModelInterpreter_new_def files_with_def input_u8_def
        output_rank1_def runInference.simps copy_input_def input_elements_def int_mul_def in_int_def
        typed_tensor_uint8_def memcpy_def Invoke_writes_def read_output.simps Let_def)

end
